theory Spec2Isabelle
  imports Main
begin

section \<open>JavaScript values\<close>

text \<open>
  The components are TypeScript on a JavaScript runtime. A value that may be
  \<^verbatim>\<open>undefined\<close> or \<^verbatim>\<open>null\<close> is an \<open>option\<close>; an optional chain
  \<^verbatim>\<open>a?.b?.c\<close> is a chain of \<open>Option.bind\<close>. The three operators below are
  the ones the source relies on: truthiness of a string, \<^verbatim>\<open>a ?? b\<close> and
  \<^verbatim>\<open>a || b\<close> on strings.
\<close>

definition truthy :: "string \<Rightarrow> bool" where
  "truthy s = (s \<noteq> [])"

definition truthy_opt :: "string option \<Rightarrow> bool" where
  "truthy_opt v = (case v of None \<Rightarrow> False | Some s \<Rightarrow> truthy s)"

definition nullish :: "'a option \<Rightarrow> 'a \<Rightarrow> 'a" where
  "nullish v d = (case v of None \<Rightarrow> d | Some x \<Rightarrow> x)"

definition or_else :: "string \<Rightarrow> string \<Rightarrow> string" where
  "or_else a b = (if truthy a then a else b)"

section \<open>The policy object\<close>

text \<open>
  Only the parts of the policy the two accounting pages read:
  \<^verbatim>\<open>policy?.connections?.netsuite?.options?.config?.syncOptions?.customLists\<close> and
  \<^verbatim>\<open>policy?.connections?.quickbooksOnline?.config\<close>, with \<^verbatim>\<open>policy.id\<close> and
  \<^verbatim>\<open>policy.owner\<close>.
\<close>

record netsuite_custom_list =
  transactionFieldID :: string

record netsuite_sync_options =
  customLists :: "netsuite_custom_list list option"

record netsuite_config =
  syncOptions :: "netsuite_sync_options option"

record netsuite_options =
  config :: "netsuite_config option"

record netsuite_connection =
  options :: "netsuite_options option"

record quickbooks_config =
  exporter :: "string option"
  exportDate :: "string option"
  exportEntity :: "string option"
  exportInvoice :: "string option"
  exportCompanyCard :: "string option"
  errors :: "(string \<rightharpoonup> string) option"

record quickbooks_connection =
  config_qbo :: "quickbooks_config option"

record connections =
  netsuite :: "netsuite_connection option"
  quickbooksOnline :: "quickbooks_connection option"

record policy =
  id_policy :: string
  owner :: string
  connections :: "connections option"

section \<open>NetSuite: TransactionFieldIDStep.validate\<close>

text \<open>
  \<open>INPUT_IDS\<close> of the NetSuite custom field form. The step reads and reports
  on \<open>TRANSACTION_FIELD_ID\<close> only.
\<close>

datatype input_id = TRANSACTION_FIELD_ID | OTHER_INPUT string

type_synonym form_values = "input_id \<Rightarrow> string"
type_synonym form_errors = "input_id \<rightharpoonup> string"

text \<open>
  \<^verbatim>\<open>policy?.connections?.netsuite?.options?.config?.syncOptions?.customLists\<close>
\<close>

definition customListsOf :: "policy option \<Rightarrow> netsuite_custom_list list option" where
  "customListsOf p =
     Option.bind (Option.bind (Option.bind (Option.bind (Option.bind (Option.bind p
       connections) netsuite) options) config) syncOptions) customLists"

text \<open>
  The validator. What it calls and does not define is a parameter:
  \<open>isRequiredFulfilled\<close> (ValidationUtils), \<open>translate\<close> (useLocalize) and the
  two string methods of the runtime, \<^verbatim>\<open>String.prototype.toLowerCase\<close>, applied
  to the stored ID, and \<^verbatim>\<open>String.prototype.toLocaleLowerCase\<close>, applied to
  the entered one. \<^verbatim>\<open>Array.prototype.find\<close> is \<open>List.find\<close>; the element it
  returns is an object, hence truthy.
\<close>

definition validate ::
  "(string \<Rightarrow> bool) \<Rightarrow> (string \<Rightarrow> string) \<Rightarrow> (string \<Rightarrow> string) \<Rightarrow>
   (string \<Rightarrow> string list \<Rightarrow> string) \<Rightarrow> string \<Rightarrow> policy option \<Rightarrow> form_values \<Rightarrow> form_errors" where
  "validate isRequiredFulfilled toLowerCase toLocaleLowerCase translate fieldLabel p values =
     (let errs = Map.empty in
      if \<not> isRequiredFulfilled (values TRANSACTION_FIELD_ID) then
        errs(TRANSACTION_FIELD_ID \<mapsto>
          translate ''workspace.netsuite.import.importCustomFields.requiredFieldError'' [fieldLabel])
      else if Option.bind (customListsOf p)
                (List.find (\<lambda>customList. toLowerCase (transactionFieldID customList)
                                          = toLocaleLowerCase (values TRANSACTION_FIELD_ID))) \<noteq> None then
        errs(TRANSACTION_FIELD_ID \<mapsto>
          translate ''workspace.netsuite.import.importCustomFields.uniqueTransactionFieldIdError'' [])
      else errs)"

text \<open>
  Two lower-casings of the runtime on ASCII text, for concrete runs. The first is
  the locale-independent one. The second is \<^verbatim>\<open>toLocaleLowerCase\<close> on a host whose
  default locale is Turkish or Azeri: there the capital I lowers to the dotless
  U+0131, here in its two UTF-8 bytes, 196 and 177.
\<close>

definition lower_char :: "char \<Rightarrow> char" where
  "lower_char c =
     (case map_of (zip ''ABCDEFGHIJKLMNOPQRSTUVWXYZ'' ''abcdefghijklmnopqrstuvwxyz'') c of
        None \<Rightarrow> c
      | Some l \<Rightarrow> l)"

definition toLowerCase_ascii :: "string \<Rightarrow> string" where
  "toLowerCase_ascii s = map lower_char s"

definition toLocaleLowerCase_tr :: "string \<Rightarrow> string" where
  "toLocaleLowerCase_tr s =
     concat (map (\<lambda>c. if c = CHR ''I'' then [char_of (196::nat), char_of (177::nat)]
                       else [lower_char c]) s)"

text \<open>
  Equality of two IDs up to case, for a given lower-casing: both sides are
  lowered by the same function and compared.
\<close>

definition equalIgnoringCase :: "(string \<Rightarrow> string) \<Rightarrow> string \<Rightarrow> string \<Rightarrow> bool" where
  "equalIgnoringCase lower a b = (lower a = lower b)"

text \<open>A policy whose NetSuite connection holds the given custom lists.\<close>

definition policyWithCustomLists :: "netsuite_custom_list list \<Rightarrow> policy" where
  "policyWithCustomLists ls =
     \<lparr>id_policy = ''P1'', owner = ''owner@example.com'',
      connections = Some \<lparr>netsuite = Some \<lparr>options = Some \<lparr>config = Some
        \<lparr>syncOptions = Some \<lparr>customLists = Some ls\<rparr>\<rparr>\<rparr>\<rparr>,
        quickbooksOnline = None\<rparr>\<rparr>"

section \<open>QuickBooks Online: QuickbooksExportConfigurationPage\<close>

datatype brick_road_indicator_status = ERROR | INFO

text \<open>The routes the rows navigate to, each built by \<^verbatim>\<open>getRoute(policyID)\<close>.\<close>

datatype route =
    WORKSPACE_ACCOUNTING_QUICKBOOKS_ONLINE_PREFERRED_EXPORTER string
  | WORKSPACE_ACCOUNTING_QUICKBOOKS_ONLINE_EXPORT_DATE_SELECT string
  | WORKSPACE_ACCOUNTING_QUICKBOOKS_ONLINE_EXPORT_OUT_OF_POCKET_EXPENSES string
  | WORKSPACE_ACCOUNTING_QUICKBOOKS_ONLINE_INVOICE_ACCOUNT_SELECT string
  | WORKSPACE_ACCOUNTING_QUICKBOOKS_ONLINE_COMPANY_CARD_EXPENSE string

record menu_item =
  description :: string
  onPress :: "route option"
  brickRoadIndicator :: "brick_road_indicator_status option"
  title :: "string option"
  shouldShowRightIcon :: "bool option"

text \<open>\<^verbatim>\<open>policy?.connections?.quickbooksOnline?.config\<close>\<close>

definition qboConfigOf :: "policy option \<Rightarrow> quickbooks_config option" where
  "qboConfigOf p = Option.bind (Option.bind (Option.bind p connections) quickbooksOnline) config_qbo"

text \<open>\<^verbatim>\<open>errors?.field\<close>, for the \<open>errors\<close> destructured from the config (or from \<^verbatim>\<open>{}\<close>).\<close>

definition errorField :: "policy option \<Rightarrow> string \<Rightarrow> string option" where
  "errorField p field = Option.bind (Option.bind (qboConfigOf p) errors) (\<lambda>e. e field)"

text \<open>\<^verbatim>\<open>cond ? CONST.BRICK_ROAD_INDICATOR_STATUS.ERROR : undefined\<close>\<close>

definition errorIndicator :: "string option \<Rightarrow> brick_road_indicator_status option" where
  "errorIndicator e = (if truthy_opt e then Some ERROR else None)"

definition menuItems :: "(string \<Rightarrow> string list \<Rightarrow> string) \<Rightarrow> policy option \<Rightarrow> menu_item list" where
  "menuItems translate p =
     (let policyID = nullish (map_option id_policy p) [];
          policyOwner = nullish (map_option owner p) [];
          cfg = qboConfigOf p;
          exporter' = Option.bind cfg exporter;
          exportDate' = Option.bind cfg exportDate;
          exportEntity' = Option.bind cfg exportEntity;
          exportInvoice' = Option.bind cfg exportInvoice;
          exportCompanyCard' = Option.bind cfg exportCompanyCard
      in
      [\<lparr>description = translate ''workspace.qbo.preferredExporter'' [],
        onPress = Some (WORKSPACE_ACCOUNTING_QUICKBOOKS_ONLINE_PREFERRED_EXPORTER policyID),
        brickRoadIndicator = errorIndicator (errorField p ''exporter''),
        title = Some (nullish exporter' policyOwner),
        shouldShowRightIcon = None\<rparr>,
       \<lparr>description = translate ''workspace.qbo.date'' [],
        onPress = Some (WORKSPACE_ACCOUNTING_QUICKBOOKS_ONLINE_EXPORT_DATE_SELECT policyID),
        brickRoadIndicator = errorIndicator (errorField p ''exportDate''),
        title = (case exportDate' of
                   None \<Rightarrow> None
                 | Some d \<Rightarrow> if truthy d then Some (translate (''workspace.qbo.'' @ d @ ''.label'') [])
                            else None),
        shouldShowRightIcon = None\<rparr>,
       \<lparr>description = translate ''workspace.qbo.exportExpenses'' [],
        onPress = Some (WORKSPACE_ACCOUNTING_QUICKBOOKS_ONLINE_EXPORT_OUT_OF_POCKET_EXPENSES policyID),
        brickRoadIndicator = errorIndicator (errorField p ''exportExpenses''),
        title = (case exportEntity' of
                   None \<Rightarrow> None
                 | Some e \<Rightarrow> if truthy e then Some (translate (''workspace.qbo.'' @ e) []) else None),
        shouldShowRightIcon = None\<rparr>,
       \<lparr>description = translate ''workspace.qbo.exportInvoices'' [],
        onPress = Some (WORKSPACE_ACCOUNTING_QUICKBOOKS_ONLINE_INVOICE_ACCOUNT_SELECT policyID),
        brickRoadIndicator = errorIndicator (errorField p ''exportInvoice''),
        title = exportInvoice',
        shouldShowRightIcon = None\<rparr>,
       \<lparr>description = translate ''workspace.qbo.exportCompany'' [],
        onPress = Some (WORKSPACE_ACCOUNTING_QUICKBOOKS_ONLINE_COMPANY_CARD_EXPENSE policyID),
        brickRoadIndicator = errorIndicator (errorField p ''exportCompanyCard''),
        title = exportCompanyCard',
        shouldShowRightIcon = None\<rparr>,
       \<lparr>description = translate ''workspace.qbo.exportExpensifyCard'' [],
        onPress = None,
        brickRoadIndicator = None,
        title = Some (translate ''workspace.qbo.creditCard'' []),
        shouldShowRightIcon = Some False\<rparr>])"

text \<open>A policy with the given QuickBooks Online configuration.\<close>

definition policyWithQbo :: "quickbooks_config \<Rightarrow> policy" where
  "policyWithQbo cfg =
     \<lparr>id_policy = ''P1'', owner = ''owner@example.com'',
      connections = Some \<lparr>netsuite = None,
        quickbooksOnline = Some \<lparr>config_qbo = Some cfg\<rparr>\<rparr>\<rparr>"

section \<open>DragAndDropConsumer\<close>

text \<open>
  The value of the drag-and-drop context of a drop zone, and the props of the
  consumer. \<open>'c\<close> is the type of the children, \<open>'f\<close> of the \<open>onDrop\<close> functions.
\<close>

record drag_and_drop_context =
  isDraggingOver :: bool

record ('c, 'f) consumer_props =
  children :: 'c
  dropZoneID :: string
  dropZoneHostName :: string
  onDrop :: "'f option"

text \<open>\<^verbatim>\<open><Portal hostName={dropZoneHostName}>{children}</Portal>\<close>\<close>

datatype 'c element = Portal string 'c

text \<open>
  What the component returns. \<open>getDragAndDropContext\<close> (DNDUtils) with
  \<^verbatim>\<open>useContext\<close> is a parameter: the context value of each drop zone.
  \<open>None\<close> is \<^verbatim>\<open>null\<close>.
\<close>

definition DragAndDropConsumer ::
  "(string \<Rightarrow> drag_and_drop_context) \<Rightarrow> ('c, 'f) consumer_props \<Rightarrow> 'c element option" where
  "DragAndDropConsumer getDragAndDropContext props =
     (let ctx = getDragAndDropContext (dropZoneID props) in
      if \<not> isDraggingOver ctx then None
      else Some (Portal (dropZoneHostName props) (children props)))"

text \<open>
  The hooks of one mounted consumer. \<open>onDropRef\<close> is \<^verbatim>\<open>onDropRef.current\<close>.
  The effect has the dependency list \<^verbatim>\<open>[dropZoneID]\<close>: \<open>effectDeps\<close> is the
  \<open>dropZoneID\<close> of its last run and \<open>onDropCallback\<close> the closure that run
  created, both captured by the cleanup it returned. Each run creates a new
  closure; closures are told apart by a number, \<open>nextClosure\<close> being the next
  unused one. The calls into DNDUtils are recorded in a log.
\<close>

datatype dnd_call =
    RegisterOnDropCallback string nat
  | DeregisterOnDropCallback string nat

record 'f consumer_hooks =
  onDropRef :: "'f option"
  effectDeps :: string
  onDropCallback :: nat
  nextClosure :: nat

text \<open>The first render sets the ref, and the effect runs once.\<close>

definition mount :: "nat \<Rightarrow> ('c, 'f) consumer_props \<Rightarrow> 'f consumer_hooks \<times> dnd_call list" where
  "mount fresh props =
     (\<lparr>onDropRef = onDrop props, effectDeps = dropZoneID props,
       onDropCallback = fresh, nextClosure = Suc fresh\<rparr>,
      [RegisterOnDropCallback (dropZoneID props) fresh])"

text \<open>
  A later render sets the ref again. The effect runs again only when
  \<open>dropZoneID\<close> differs from the one of its last run: first the old cleanup,
  then the effect, with a new closure.
\<close>

definition rerender :: "('c, 'f) consumer_props \<Rightarrow> 'f consumer_hooks \<Rightarrow> 'f consumer_hooks \<times> dnd_call list" where
  "rerender props h =
     (let h1 = h\<lparr>onDropRef := onDrop props\<rparr> in
      if dropZoneID props = effectDeps h1 then (h1, [])
      else (h1\<lparr>effectDeps := dropZoneID props,
               onDropCallback := nextClosure h1,
               nextClosure := Suc (nextClosure h1)\<rparr>,
            [DeregisterOnDropCallback (effectDeps h1) (onDropCallback h1),
             RegisterOnDropCallback (dropZoneID props) (nextClosure h1)]))"

text \<open>Unmounting runs the cleanup of the last effect run.\<close>

definition unmount :: "'f consumer_hooks \<Rightarrow> dnd_call list" where
  "unmount h = [DeregisterOnDropCallback (effectDeps h) (onDropCallback h)]"

text \<open>
  Calling a registered \<open>onDropCallback\<close>: it reads the ref when it is called.
  The result lists the \<open>onDrop\<close> functions it calls.
\<close>

definition invokeOnDropCallback :: "'f consumer_hooks \<Rightarrow> 'f list" where
  "invokeOnDropCallback h = (case onDropRef h of None \<Rightarrow> [] | Some f \<Rightarrow> [f])"

text \<open>A sequence of later renders, with the calls they make.\<close>

fun rerenders :: "'f consumer_hooks \<Rightarrow> ('c, 'f) consumer_props list \<Rightarrow> 'f consumer_hooks \<times> dnd_call list" where
  "rerenders h [] = (h, [])"
| "rerenders h (p # ps) =
     (case rerender p h of (h1, cs1) \<Rightarrow>
        (case rerenders h1 ps of (h2, cs2) \<Rightarrow> (h2, cs1 @ cs2)))"

text \<open>The mounted life of a consumer: the first render and the later ones.\<close>

definition mounted :: "nat \<Rightarrow> ('c, 'f) consumer_props \<Rightarrow> ('c, 'f) consumer_props list \<Rightarrow> 'f consumer_hooks \<times> dnd_call list" where
  "mounted fresh p ps =
     (case mount fresh p of (h0, cs0) \<Rightarrow>
        (case rerenders h0 ps of (h1, cs1) \<Rightarrow> (h1, cs0 @ cs1)))"

text \<open>
  The registrations a log of calls leaves standing: a registration adds its
  pair of drop zone and callback, a deregistration removes that very pair.
\<close>

fun standing :: "(string \<times> nat) list \<Rightarrow> dnd_call list \<Rightarrow> (string \<times> nat) list" where
  "standing regs [] = regs"
| "standing regs (RegisterOnDropCallback z c # cs) = standing (regs @ [(z, c)]) cs"
| "standing regs (DeregisterOnDropCallback z c # cs) = standing (remove1 (z, c) regs) cs"

section \<open>AttachmentModal\<close>

subsection \<open>Files\<close>

text \<open>
  The fields \<^verbatim>\<open>File\<close> and \<^verbatim>\<open>ImagePickerResponse\<close> share (\<open>name\<close>, \<open>size\<close>,
  \<open>type\<close>), then each type. A size is a number of bytes. A
  \<^verbatim>\<open>DataTransferItem\<close> of a drag and drop has \<open>getAsFile\<close>, which gives a file
  or \<^verbatim>\<open>null\<close>, and on browsers that have it \<open>webkitGetAsEntry\<close>, which gives
  an entry or \<^verbatim>\<open>null\<close>.
\<close>

record file_like =
  name :: string
  fileSize :: nat
  fileType :: string

record dom_file = file_like +
  lastModified :: nat

record image_picker_response = file_like +
  height :: nat
  uri :: string
  width :: nat

record file_system_entry =
  isDirectory :: bool

record data_transfer_item =
  webkitGetAsEntry :: "file_system_entry option option"
  getAsFile :: "dom_file option"

datatype data =
    FileData dom_file
  | ImagePickerData image_picker_response
  | DataTransferItemData data_transfer_item

text \<open>
  The object the \<open>file\<close> state (below \<open>fileValue\<close>) holds, \<^verbatim>\<open>Partial<File> | undefined\<close>, and
  \<open>onConfirm\<close> receives: every property is optional, and \<open>pSource\<close> is the
  \<open>source\<close> property \<^verbatim>\<open>lodashExtend\<close> adds.
\<close>

record partial_file =
  pName :: "string option"
  pSize :: "nat option"
  pType :: "string option"
  pLastModified :: "nat option"
  pUri :: "string option"
  pHeight :: "nat option"
  pWidth :: "nat option"
  pSource :: "string option"

definition emptyObject :: partial_file where
  "emptyObject = \<lparr>pName = None, pSize = None, pType = None, pLastModified = None,
                   pUri = None, pHeight = None, pWidth = None, pSource = None\<rparr>"

definition ofName :: "string \<Rightarrow> partial_file" where
  "ofName n = emptyObject\<lparr>pName := Some n\<rparr>"

definition ofFile :: "dom_file \<Rightarrow> partial_file" where
  "ofFile f = emptyObject\<lparr>pName := Some (name f), pSize := Some (fileSize f),
                          pType := Some (fileType f), pLastModified := Some (lastModified f)\<rparr>"

definition ofPicker :: "image_picker_response \<Rightarrow> partial_file" where
  "ofPicker r = emptyObject\<lparr>pName := Some (name r), pSize := Some (fileSize r),
                            pType := Some (fileType r), pUri := Some (uri r),
                            pHeight := Some (height r), pWidth := Some (width r)\<rparr>"

text \<open>
  \<^verbatim>\<open>lodashExtend(file, {source: sourceState})\<close>: the properties of the second
  object are assigned to the first, which is returned; \<^verbatim>\<open>undefined\<close> counts
  as a new empty object.
\<close>

definition lodashExtend :: "partial_file option \<Rightarrow> string \<Rightarrow> partial_file" where
  "lodashExtend f src = (case f of None \<Rightarrow> emptyObject | Some obj \<Rightarrow> obj)\<lparr>pSource := Some src\<rparr>"

subsection \<open>Props and state\<close>

datatype modal_type = CENTERED | CENTERED_UNSWIPEABLE

record report =
  reportID :: string
  parentReportActionID :: "string option"

text \<open>
  The props the handlers and the render read. \<open>'f\<close> is the type of the
  \<open>onConfirm\<close> callbacks, \<open>'a\<close> of report actions, \<open>'t\<close> of transactions.
\<close>

record ('f, 'a, 't) attachment_modal_props =
  source :: string
  onConfirm :: "'f option"
  defaultOpen :: bool
  originalFileName :: string
  isAuthTokenRequired :: bool
  allowDownload :: bool
  reportProp :: "report option"
  isReceiptAttachment :: bool
  transaction :: "'t option"
  parentReport :: "report option"
  parentReportActions :: "(string \<rightharpoonup> 'a) option"

record modal_state =
  isModalOpen :: bool
  shouldLoadAttachment :: bool
  isAttachmentInvalid :: bool
  isDeleteReceiptConfirmModalVisible :: bool
  isAuthTokenRequiredState :: bool
  attachmentInvalidReasonTitle :: string
  attachmentInvalidReason :: "string option"
  sourceState :: string
  modalType :: modal_type
  isConfirmButtonDisabled :: bool
  isDownloadButtonReadyToBeShown :: bool
  fileValue :: "partial_file option"

text \<open>The initial values of the \<^verbatim>\<open>useState\<close> hooks.\<close>

definition initialState :: "('f, 'a, 't) attachment_modal_props \<Rightarrow> modal_state" where
  "initialState props =
     \<lparr>isModalOpen = defaultOpen props,
      shouldLoadAttachment = False,
      isAttachmentInvalid = False,
      isDeleteReceiptConfirmModalVisible = False,
      isAuthTokenRequiredState = isAuthTokenRequired props,
      attachmentInvalidReasonTitle = [],
      attachmentInvalidReason = None,
      sourceState = source props,
      modalType = CENTERED_UNSWIPEABLE,
      isConfirmButtonDisabled = False,
      isDownloadButtonReadyToBeShown = True,
      fileValue = (if truthy (originalFileName props) then Some (ofName (originalFileName props)) else None)\<rparr>"

definition isOverlayModalVisible :: "('f, 'a, 't) attachment_modal_props \<Rightarrow> modal_state \<Rightarrow> bool" where
  "isOverlayModalVisible props s =
     ((isReceiptAttachment props \<and> isDeleteReceiptConfirmModalVisible s)
      \<or> (\<not> isReceiptAttachment props \<and> isAttachmentInvalid s))"

subsection \<open>Handlers\<close>

text \<open>
  \<open>Str.isPDF\<close> and \<open>translate\<close> are parameters. The file is optional for the
  guard \<^verbatim>\<open>_file &&\<close>; \<^verbatim>\<open>_file.name || translate(...)\<close> takes the
  placeholder when the name is empty.
\<close>

definition getModalType ::
  "(string \<Rightarrow> bool) \<Rightarrow> (string \<Rightarrow> string list \<Rightarrow> string) \<Rightarrow> string \<Rightarrow>
   ('x file_like_scheme) option \<Rightarrow> modal_type" where
  "getModalType isPDF translate sourceURL f =
     (if truthy sourceURL \<and>
         (isPDF sourceURL \<or>
          (case f of
             None \<Rightarrow> False
           | Some fl \<Rightarrow> isPDF (or_else (name fl) (translate ''attachmentView.unknownFilename'' []))))
      then CENTERED_UNSWIPEABLE else CENTERED)"

text \<open>
  A handler returns the calls it makes to \<open>onConfirm\<close> and the next state. In
  \<open>submitAndClose\<close> the object \<^verbatim>\<open>lodashExtend\<close> assigns to is the one the
  \<open>file\<close> state holds, so the state's object gets the \<open>source\<close> property too.
\<close>

datatype 'f modal_call = OnConfirm 'f partial_file

definition submitAndClose ::
  "('f, 'a, 't) attachment_modal_props \<Rightarrow> modal_state \<Rightarrow> 'f modal_call list \<times> modal_state" where
  "submitAndClose props s =
     (if \<not> isModalOpen s \<or> isConfirmButtonDisabled s then ([], s)
      else
        (case onConfirm props of
           None \<Rightarrow> ([], s\<lparr>isModalOpen := False\<rparr>)
         | Some cb \<Rightarrow>
             ([OnConfirm cb (lodashExtend (fileValue s) (sourceState s))],
              s\<lparr>fileValue := map_option (\<lambda>obj. obj\<lparr>pSource := Some (sourceState s)\<rparr>) (fileValue s),
                isModalOpen := False\<rparr>)))"

definition closeConfirmModal :: "modal_state \<Rightarrow> modal_state" where
  "closeConfirmModal s = s\<lparr>isAttachmentInvalid := False, isDeleteReceiptConfirmModalVisible := False\<rparr>"

definition closeModal :: "modal_state \<Rightarrow> modal_state" where
  "closeModal s = s\<lparr>isModalOpen := False\<rparr>"

definition openModal :: "modal_state \<Rightarrow> modal_state" where
  "openModal s = s\<lparr>isModalOpen := True\<rparr>"

text \<open>\<open>CONST.API_ATTACHMENT_VALIDATIONS\<close>: the two bounds are parameters.\<close>

record api_attachment_validations =
  MAX_SIZE :: nat
  MIN_SIZE :: nat

definition isValidFile :: "api_attachment_validations \<Rightarrow> dom_file \<Rightarrow> modal_state \<Rightarrow> bool \<times> modal_state" where
  "isValidFile c f s =
     (if fileSize f > MAX_SIZE c then
        (False, s\<lparr>isAttachmentInvalid := True,
                  attachmentInvalidReasonTitle := ''attachmentPicker.attachmentTooLarge'',
                  attachmentInvalidReason := Some ''attachmentPicker.sizeExceeded''\<rparr>)
      else if fileSize f < MIN_SIZE c then
        (False, s\<lparr>isAttachmentInvalid := True,
                  attachmentInvalidReasonTitle := ''attachmentPicker.attachmentTooSmall'',
                  attachmentInvalidReason := Some ''attachmentPicker.sizeNotMet''\<rparr>)
      else (True, s))"

text \<open>Whether the data is a directory: only an item with \<open>webkitGetAsEntry\<close> can be.\<close>

definition isDirectoryData :: "data \<Rightarrow> bool" where
  "isDirectoryData d =
     (case d of
        DataTransferItemData item \<Rightarrow>
          (case webkitGetAsEntry item of
             Some (Some entry) \<Rightarrow> isDirectory entry
           | _ \<Rightarrow> False)
      | _ \<Rightarrow> False)"

definition isDirectoryCheck :: "data \<Rightarrow> modal_state \<Rightarrow> bool \<times> modal_state" where
  "isDirectoryCheck d s =
     (if isDirectoryData d then
        (False, s\<lparr>isAttachmentInvalid := True,
                  attachmentInvalidReasonTitle := ''attachmentPicker.attachmentError'',
                  attachmentInvalidReason := Some ''attachmentPicker.folderNotAllowedMessage''\<rparr>)
      else (True, s))"

text \<open>
  \<^verbatim>\<open>fileObject\<close>: the data itself, or for an item what \<open>getAsFile\<close> gives.
\<close>

definition fileObjectOf :: "data \<Rightarrow> data option" where
  "fileObjectOf d =
     (case d of
        DataTransferItemData item \<Rightarrow> map_option FileData (getAsFile item)
      | _ \<Rightarrow> Some d)"

text \<open>
  The file under its clean name: \<^verbatim>\<open>new File([updatedFile], cleanName, {type})\<close>
  has the same bytes and type, the clean name and the time of its creation.
\<close>

definition withCleanName :: "(string \<Rightarrow> string) \<Rightarrow> nat \<Rightarrow> dom_file \<Rightarrow> dom_file" where
  "withCleanName cleanFileName now f =
     (let cleanName = cleanFileName (name f) in
      if name f \<noteq> cleanName then f\<lparr>name := cleanName, lastModified := now\<rparr> else f)"

text \<open>
  \<open>displayFileInModal\<close>. Parameters: the bounds, \<open>Str.isPDF\<close>, \<open>translate\<close>,
  \<open>FileUtils.cleanFileName\<close>, \<^verbatim>\<open>URL.createObjectURL\<close> and the clock.
  The state setters of one call are applied together, to the state the handler
  was created in. The last case cannot arise: \<open>fileObjectOf\<close> never gives an
  item.
\<close>

definition validateAndDisplayFileToUpload ::
  "api_attachment_validations \<Rightarrow> (string \<Rightarrow> bool) \<Rightarrow> (string \<Rightarrow> string list \<Rightarrow> string) \<Rightarrow>
   (string \<Rightarrow> string) \<Rightarrow> (dom_file \<Rightarrow> string) \<Rightarrow> nat \<Rightarrow> data \<Rightarrow> modal_state \<Rightarrow> modal_state" where
  "validateAndDisplayFileToUpload c isPDF translate cleanFileName createObjectURL now d s =
     (case isDirectoryCheck d s of
        (False, s1) \<Rightarrow> s1
      | (True, _) \<Rightarrow>
          (case fileObjectOf d of
             None \<Rightarrow> s
           | Some (FileData f) \<Rightarrow>
               (case isValidFile c f s of
                  (False, s1) \<Rightarrow> s1
                | (True, _) \<Rightarrow>
                    (let updatedFile = withCleanName cleanFileName now f;
                         inputSource = createObjectURL updatedFile;
                         inputModalType = getModalType isPDF translate inputSource (Some updatedFile)
                     in s\<lparr>isModalOpen := True, sourceState := inputSource,
                          fileValue := Some (ofFile updatedFile), modalType := inputModalType\<rparr>))
           | Some (ImagePickerData r) \<Rightarrow>
               (let inputModalType = getModalType isPDF translate (uri r) (Some r)
                in s\<lparr>isModalOpen := True, sourceState := uri r,
                     fileValue := Some (ofPicker r), modalType := inputModalType\<rparr>)
           | Some (DataTransferItemData item) \<Rightarrow> s))"

subsection \<open>The three-dots menu\<close>


datatype edit_request_field = RECEIPT | OTHER_FIELD string














subsection \<open>What is rendered\<close>

text \<open>
  The parts of the rendered tree the properties are about: the handler given to
  the modal as \<open>onClose\<close>, the Send button (with \<open>isDisabled\<close>) when it is
  rendered, and each of the two confirm modals (with \<open>isVisible\<close>) when it is
  rendered.
\<close>

datatype close_handler = CloseConfirmModal | CloseModal

record rendered =
  modalOnClose :: close_handler
  modalIsVisible :: bool
  sendButton :: "bool option"
  deleteReceiptConfirmModal :: "bool option"
  invalidAttachmentConfirmModal :: "bool option"

definition render :: "('f, 'a, 't) attachment_modal_props \<Rightarrow> modal_state \<Rightarrow> rendered" where
  "render props s =
     \<lparr>modalOnClose = (if isOverlayModalVisible props s then CloseConfirmModal else CloseModal),
      modalIsVisible = isModalOpen s,
      sendButton = (if onConfirm props \<noteq> None then Some (isConfirmButtonDisabled s) else None),
      deleteReceiptConfirmModal =
        (if isReceiptAttachment props then Some (isDeleteReceiptConfirmModalVisible s) else None),
      invalidAttachmentConfirmModal =
        (if \<not> isReceiptAttachment props then Some (isAttachmentInvalid s) else None)\<rparr>"

definition runCloseHandler :: "close_handler \<Rightarrow> modal_state \<Rightarrow> modal_state" where
  "runCloseHandler h s = (case h of CloseConfirmModal \<Rightarrow> closeConfirmModal s | CloseModal \<Rightarrow> closeModal s)"

section \<open>Concrete inputs\<close>

text \<open>A stand-in for \<open>Str.isPDF\<close> on concrete runs: the name ends in \<^verbatim>\<open>.pdf\<close>, in any case.\<close>

definition endsWithPdf :: "string \<Rightarrow> bool" where
  "endsWithPdf s = (drop (length s - 4) (toLowerCase_ascii s) = ''.pdf'')"

text \<open>A translation that gives back its key.\<close>

definition translateKey :: "string \<Rightarrow> string list \<Rightarrow> string" where
  "translateKey k args = k"

text \<open>
  A receipt attachment with a confirm callback (the callback number 7), open by
  default, whose parent report and report actions are loaded.
\<close>

definition receiptProps :: "(nat, unit, unit) attachment_modal_props" where
  "receiptProps =
     \<lparr>source = ''blob:1'', onConfirm = Some 7, defaultOpen = True,
      originalFileName = ''a.png'', isAuthTokenRequired = False, allowDownload = False,
      reportProp = Some \<lparr>reportID = ''R1'', parentReportActionID = Some ''A1''\<rparr>,
      isReceiptAttachment = True, transaction = Some (),
      parentReport = Some \<lparr>reportID = ''R0'', parentReportActionID = None\<rparr>,
      parentReportActions = Some [''A1'' \<mapsto> ()]\<rparr>"





text \<open>
  Bounds on the size of an attachment, in bytes, and the pieces of a concrete
  upload: a file of a given size whose name has a space, a cleaning of names that
  writes an underscore for each space, and object URLs made from the name.
\<close>

definition attachmentBounds :: api_attachment_validations where
  "attachmentBounds = \<lparr>MAX_SIZE = 25165824, MIN_SIZE = 240\<rparr>"

definition receiptFile :: "nat \<Rightarrow> dom_file" where
  "receiptFile n = \<lparr>name = ''my receipt.pdf'', fileSize = n,
                     fileType = ''application/pdf'', lastModified = 5\<rparr>"

definition underscoreSpaces :: "string \<Rightarrow> string" where
  "underscoreSpaces s = map (\<lambda>c. if c = CHR '' '' then CHR ''_'' else c) s"

definition blobURL :: "dom_file \<Rightarrow> string" where
  "blobURL f = ''blob:'' @ name f"

definition upload :: "data \<Rightarrow> modal_state \<Rightarrow> modal_state" where
  "upload = validateAndDisplayFileToUpload attachmentBounds endsWithPdf translateKey
              underscoreSpaces blobURL 1000"

definition folderItem :: data where
  "folderItem = DataTransferItemData
                  \<lparr>webkitGetAsEntry = Some (Some \<lparr>isDirectory = True\<rparr>), getAsFile = None\<rparr>"

section \<open>Properties\<close>

lemma find_defined: "(\<exists>y. List.find P xs = Some y) = (\<exists>x \<in> set xs. P x)"
proof (cases "List.find P xs")
  case None
  then show ?thesis by (auto simp: find_None_iff)
next
  case (Some y)
  then show ?thesis by (auto simp: find_Some_iff)
qed

lemma validate_cases:
  "validate isRequiredFulfilled toLowerCase toLocaleLowerCase translate fieldLabel p values =
     (if \<not> isRequiredFulfilled (values TRANSACTION_FIELD_ID) then
        [TRANSACTION_FIELD_ID \<mapsto>
          translate ''workspace.netsuite.import.importCustomFields.requiredFieldError'' [fieldLabel]]
      else if \<exists>ls. customListsOf p = Some ls \<and>
                (\<exists>customList \<in> set ls. toLowerCase (transactionFieldID customList)
                                        = toLocaleLowerCase (values TRANSACTION_FIELD_ID)) then
        [TRANSACTION_FIELD_ID \<mapsto>
          translate ''workspace.netsuite.import.importCustomFields.uniqueTransactionFieldIdError'' []]
      else Map.empty)"
  by (cases "customListsOf p") (auto simp: validate_def Let_def find_defined find_None_iff)

subsection \<open>DragAndDropConsumer: what is rendered\<close>

text \<open>
  C2. On every render: when \<open>isDraggingOver\<close>, read from the context of the
  given \<open>dropZoneID\<close>, is false the component returns \<^verbatim>\<open>null\<close>; when it is
  true it returns its children inside a Portal whose host name is
  \<open>dropZoneHostName\<close>.
\<close>

theorem DragAndDropConsumer_null_or_portal:
  "(\<not> isDraggingOver (getDragAndDropContext (dropZoneID props)) \<longrightarrow>
      DragAndDropConsumer getDragAndDropContext props = None) \<and>
   (isDraggingOver (getDragAndDropContext (dropZoneID props)) \<longrightarrow>
      DragAndDropConsumer getDragAndDropContext props
        = Some (Portal (dropZoneHostName props) (children props)))"
  by (simp add: DragAndDropConsumer_def)

theorem DragAndDropConsumer_null_or_portal_witness:
  "DragAndDropConsumer (\<lambda>z. \<lparr>isDraggingOver = (z = ''zone'')\<rparr>)
     \<lparr>children = ''child'', dropZoneID = ''zone'', dropZoneHostName = ''host'', onDrop = Some (0::nat)\<rparr>
     = Some (Portal ''host'' ''child'') \<and>
   DragAndDropConsumer (\<lambda>z. \<lparr>isDraggingOver = (z = ''zone'')\<rparr>)
     \<lparr>children = ''child'', dropZoneID = ''other'', dropZoneHostName = ''host'', onDrop = Some (0::nat)\<rparr>
     = None"
  using DragAndDropConsumer_null_or_portal
          [of "\<lambda>z. \<lparr>isDraggingOver = (z = ''zone'')\<rparr>"
              "\<lparr>children = ''child'', dropZoneID = ''zone'', dropZoneHostName = ''host'', onDrop = Some (0::nat)\<rparr>"]
        DragAndDropConsumer_null_or_portal
          [of "\<lambda>z. \<lparr>isDraggingOver = (z = ''zone'')\<rparr>"
              "\<lparr>children = ''child'', dropZoneID = ''other'', dropZoneHostName = ''host'', onDrop = Some (0::nat)\<rparr>"]
  by simp

subsection \<open>AttachmentModal: confirming\<close>

text \<open>
  C3. The Send button is rendered exactly when an \<open>onConfirm\<close> callback is
  given. When the modal is open and the confirm button is enabled,
  \<open>submitAndClose\<close> calls \<open>onConfirm\<close>, when there is one, exactly once, with the
  current file extended with the current source (the file's own properties, and
  \<open>source\<close> set to the source state), and makes no other call; afterwards the
  modal is closed.
\<close>

theorem submitAndClose_confirms_and_closes:
  "((sendButton (render props s) \<noteq> None) = (onConfirm props \<noteq> None)) \<and>
   (isModalOpen s \<and> \<not> isConfirmButtonDisabled s \<longrightarrow>
      fst (submitAndClose props s)
        = (case onConfirm props of
             None \<Rightarrow> []
           | Some cb \<Rightarrow> [OnConfirm cb (lodashExtend (fileValue s) (sourceState s))]) \<and>
      pSource (lodashExtend (fileValue s) (sourceState s)) = Some (sourceState s) \<and>
      (\<forall>obj. fileValue s = Some obj \<longrightarrow>
         lodashExtend (fileValue s) (sourceState s) = obj\<lparr>pSource := Some (sourceState s)\<rparr>) \<and>
      \<not> isModalOpen (snd (submitAndClose props s)))"
  by (auto simp: render_def submitAndClose_def lodashExtend_def split: option.splits)

theorem submitAndClose_confirms_and_closes_witness:
  "sendButton (render receiptProps (initialState receiptProps)) = Some False \<and>
   isModalOpen (initialState receiptProps) \<and>
   fst (submitAndClose receiptProps (initialState receiptProps))
     = [OnConfirm 7 ((ofName ''a.png'')\<lparr>pSource := Some ''blob:1''\<rparr>)] \<and>
   \<not> isModalOpen (snd (submitAndClose receiptProps (initialState receiptProps)))"
  using submitAndClose_confirms_and_closes [of receiptProps "initialState receiptProps"]
  by (simp add: receiptProps_def initialState_def render_def truthy_def)

text \<open>
  C9. When the modal is not open, or the confirm button is disabled,
  \<open>submitAndClose\<close> does nothing: it makes no call to \<open>onConfirm\<close> and leaves
  the whole state as it was.
\<close>

theorem submitAndClose_noop:
  assumes "\<not> isModalOpen s \<or> isConfirmButtonDisabled s"
  shows "submitAndClose props s = ([], s)"
  using assms by (auto simp: submitAndClose_def)

theorem submitAndClose_noop_witness:
  "submitAndClose receiptProps ((initialState receiptProps)\<lparr>isConfirmButtonDisabled := True\<rparr>)
     = ([], (initialState receiptProps)\<lparr>isConfirmButtonDisabled := True\<rparr>) \<and>
   submitAndClose receiptProps (closeModal (initialState receiptProps))
     = ([], closeModal (initialState receiptProps))"
  using submitAndClose_noop [of "(initialState receiptProps)\<lparr>isConfirmButtonDisabled := True\<rparr>" receiptProps]
        submitAndClose_noop [of "closeModal (initialState receiptProps)" receiptProps]
  by (simp add: closeModal_def)

subsection \<open>AttachmentModal: the type of the modal\<close>

text \<open>
  C6. For a source URL and a file, \<open>getModalType\<close> gives the unswipeable
  centered type exactly when the URL is not empty and either the URL is a PDF or
  the file's name is, the name being replaced by the translated unknown-filename
  placeholder when it is missing (empty); in every other case it gives the plain
  centered type.
\<close>

theorem getModalType_unswipeable_iff:
  "getModalType isPDF translate sourceURL (Some f) =
     (if sourceURL \<noteq> [] \<and>
         (isPDF sourceURL \<or>
          isPDF (if name f = [] then translate ''attachmentView.unknownFilename'' [] else name f))
      then CENTERED_UNSWIPEABLE else CENTERED)"
  by (simp add: getModalType_def or_else_def truthy_def)

theorem getModalType_unswipeable_iff_witness:
  "getModalType endsWithPdf translateKey ''blob:1''
     (Some \<lparr>name = ''Report.PDF'', fileSize = 1000, fileType = ''application/pdf''\<rparr>)
     = CENTERED_UNSWIPEABLE \<and>
   getModalType endsWithPdf translateKey ''blob:1''
     (Some \<lparr>name = [], fileSize = 1000, fileType = ''image/png''\<rparr>) = CENTERED \<and>
   getModalType endsWithPdf translateKey []
     (Some \<lparr>name = ''Report.PDF'', fileSize = 1000, fileType = ''application/pdf''\<rparr>) = CENTERED"
  using getModalType_unswipeable_iff
          [of endsWithPdf translateKey "''blob:1''"
              "\<lparr>name = ''Report.PDF'', fileSize = 1000, fileType = ''application/pdf''\<rparr>"]
        getModalType_unswipeable_iff
          [of endsWithPdf translateKey "''blob:1''"
              "\<lparr>name = [], fileSize = 1000, fileType = ''image/png''\<rparr>"]
        getModalType_unswipeable_iff
          [of endsWithPdf translateKey "[]"
              "\<lparr>name = ''Report.PDF'', fileSize = 1000, fileType = ''application/pdf''\<rparr>"]
  by (simp add: endsWithPdf_def translateKey_def toLowerCase_ascii_def lower_char_def)

subsection \<open>AttachmentModal: the confirm modals\<close>

text \<open>
  C5. In every state: the delete-receipt confirm modal is rendered only for a
  receipt attachment and the invalid-attachment confirm modal only for another
  attachment, so the two are never visible together; and while one of them is
  visible, the \<open>onClose\<close> of the modal is \<open>closeConfirmModal\<close>, which resets
  both \<open>isAttachmentInvalid\<close> and \<open>isDeleteReceiptConfirmModalVisible\<close> and
  leaves the main modal as open as it was.
\<close>

theorem overlay_confirm_modals_exclusive:
  "(deleteReceiptConfirmModal (render props s) \<noteq> None \<longrightarrow> isReceiptAttachment props) \<and>
   (invalidAttachmentConfirmModal (render props s) \<noteq> None \<longrightarrow> \<not> isReceiptAttachment props) \<and>
   \<not> (deleteReceiptConfirmModal (render props s) = Some True \<and>
      invalidAttachmentConfirmModal (render props s) = Some True) \<and>
   (deleteReceiptConfirmModal (render props s) = Some True \<or>
    invalidAttachmentConfirmModal (render props s) = Some True \<longrightarrow>
      modalOnClose (render props s) = CloseConfirmModal \<and>
      runCloseHandler (modalOnClose (render props s)) s
        = s\<lparr>isAttachmentInvalid := False, isDeleteReceiptConfirmModalVisible := False\<rparr> \<and>
      isModalOpen (runCloseHandler (modalOnClose (render props s)) s) = isModalOpen s)"
  by (auto simp: render_def isOverlayModalVisible_def runCloseHandler_def closeConfirmModal_def)

theorem overlay_confirm_modals_exclusive_witness:
  "deleteReceiptConfirmModal
     (render receiptProps ((initialState receiptProps)
        \<lparr>isAttachmentInvalid := True, isDeleteReceiptConfirmModalVisible := True\<rparr>)) = Some True \<and>
   invalidAttachmentConfirmModal
     (render receiptProps ((initialState receiptProps)
        \<lparr>isAttachmentInvalid := True, isDeleteReceiptConfirmModalVisible := True\<rparr>)) = None \<and>
   modalOnClose
     (render receiptProps ((initialState receiptProps)
        \<lparr>isAttachmentInvalid := True, isDeleteReceiptConfirmModalVisible := True\<rparr>)) = CloseConfirmModal \<and>
   runCloseHandler CloseConfirmModal ((initialState receiptProps)
        \<lparr>isAttachmentInvalid := True, isDeleteReceiptConfirmModalVisible := True\<rparr>)
     = initialState receiptProps"
  using overlay_confirm_modals_exclusive
          [of receiptProps "(initialState receiptProps)
             \<lparr>isAttachmentInvalid := True, isDeleteReceiptConfirmModalVisible := True\<rparr>"]
  by (simp add: receiptProps_def initialState_def render_def truthy_def runCloseHandler_def
        closeConfirmModal_def)

subsection \<open>AttachmentModal: the three-dots menu\<close>






subsection \<open>DragAndDropConsumer: registering the drop callback\<close>

lemma standing_append: "standing regs (a @ b) = standing (standing regs a) b"
  by (induction regs a rule: standing.induct) simp_all

lemma rerender_standing:
  assumes "rerender p h = (h', cs)"
  shows "standing [(effectDeps h, onDropCallback h)] cs = [(effectDeps h', onDropCallback h')]"
  using assms by (auto simp: rerender_def Let_def split: if_splits)

lemma rerender_current:
  assumes "rerender p h = (h', cs)"
  shows "onDropRef h' = onDrop p \<and> effectDeps h' = dropZoneID p"
  using assms by (auto simp: rerender_def Let_def split: if_splits)

lemma rerender_fresh:
  assumes "rerender p h = (h', cs)" and "onDropCallback h < nextClosure h"
  shows "onDropCallback h' < nextClosure h'"
  using assms by (auto simp: rerender_def Let_def split: if_splits)

lemma rerenders_standing:
  "rerenders h ps = (h', cs) \<Longrightarrow>
     standing [(effectDeps h, onDropCallback h)] cs = [(effectDeps h', onDropCallback h')]"
proof (induction ps arbitrary: h h' cs)
  case Nil
  then show ?case by simp
next
  case (Cons p ps)
  obtain h1 cs1 where r1: "rerender p h = (h1, cs1)" by (cases "rerender p h")
  obtain h2 cs2 where r2: "rerenders h1 ps = (h2, cs2)" by (cases "rerenders h1 ps")
  from Cons.prems r1 r2 have eq: "h' = h2" "cs = cs1 @ cs2" by simp_all
  show ?case
    using rerender_standing [OF r1] Cons.IH [OF r2] eq by (simp add: standing_append)
qed

lemma rerenders_current:
  "rerenders h ps = (h', cs) \<Longrightarrow>
     onDropRef h' = (if ps = [] then onDropRef h else onDrop (last ps)) \<and>
     effectDeps h' = (if ps = [] then effectDeps h else dropZoneID (last ps))"
proof (induction ps arbitrary: h h' cs)
  case Nil
  then show ?case by simp
next
  case (Cons p ps)
  obtain h1 cs1 where r1: "rerender p h = (h1, cs1)" by (cases "rerender p h")
  obtain h2 cs2 where r2: "rerenders h1 ps = (h2, cs2)" by (cases "rerenders h1 ps")
  from Cons.prems r1 r2 have eq: "h' = h2" by simp
  show ?case
    using rerender_current [OF r1] Cons.IH [OF r2] eq by simp
qed

lemma rerenders_fresh:
  "rerenders h ps = (h', cs) \<Longrightarrow> onDropCallback h < nextClosure h \<Longrightarrow>
     onDropCallback h' < nextClosure h'"
proof (induction ps arbitrary: h h' cs)
  case Nil
  then show ?case by simp
next
  case (Cons p ps)
  obtain h1 cs1 where r1: "rerender p h = (h1, cs1)" by (cases "rerender p h")
  obtain h2 cs2 where r2: "rerenders h1 ps = (h2, cs2)" by (cases "rerenders h1 ps")
  from Cons.prems r1 r2 have eq: "h' = h2" by simp
  show ?case
    using Cons.IH [OF r2 rerender_fresh [OF r1 Cons.prems(2)]] eq by simp
qed

text \<open>
  C8. Over the mounted life of a consumer, the first render with props \<open>p\<close>
  followed by any later renders \<open>ps\<close>: mounting registers exactly one callback,
  for the \<open>dropZoneID\<close> of \<open>p\<close>; after the renders exactly one registration
  stands, that of the current callback for the current \<open>dropZoneID\<close>; unmounting
  then leaves none. A render that keeps \<open>dropZoneID\<close> (whatever its \<open>onDrop\<close>)
  makes no call; a render that changes it deregisters the standing callback under
  the old \<open>dropZoneID\<close> and registers a new one under the new. Calling the
  registered callback calls the \<open>onDrop\<close> of the latest render, and nothing when
  that render gave none.
\<close>

theorem consumer_registration_balanced:
  "case mounted fresh p ps of (h, calls) \<Rightarrow>
     snd (mount fresh p) = [RegisterOnDropCallback (dropZoneID p) fresh] \<and>
     standing [] calls = [(dropZoneID (last (p # ps)), onDropCallback h)] \<and>
     standing [] (calls @ unmount h) = [] \<and>
     (\<forall>p'. dropZoneID p' = dropZoneID (last (p # ps)) \<longrightarrow> snd (rerender p' h) = []) \<and>
     (\<forall>p'. dropZoneID p' \<noteq> dropZoneID (last (p # ps)) \<longrightarrow>
        snd (rerender p' h)
          = [DeregisterOnDropCallback (dropZoneID (last (p # ps))) (onDropCallback h),
             RegisterOnDropCallback (dropZoneID p') (nextClosure h)] \<and>
        nextClosure h \<noteq> onDropCallback h) \<and>
     invokeOnDropCallback h = (case onDrop (last (p # ps)) of None \<Rightarrow> [] | Some f \<Rightarrow> [f])"
proof -
  obtain h0 cs0 where m: "mount fresh p = (h0, cs0)" by (cases "mount fresh p")
  obtain h cs where r: "rerenders h0 ps = (h, cs)" by (cases "rerenders h0 ps")
  from m have h0: "onDropRef h0 = onDrop p" "effectDeps h0 = dropZoneID p"
    "onDropCallback h0 = fresh" "nextClosure h0 = Suc fresh"
    "cs0 = [RegisterOnDropCallback (dropZoneID p) fresh]"
    by (auto simp: mount_def)
  have st: "standing [(effectDeps h0, onDropCallback h0)] cs = [(effectDeps h, onDropCallback h)]"
    by (rule rerenders_standing [OF r])
  have cur: "onDropRef h = onDrop (last (p # ps))" "effectDeps h = dropZoneID (last (p # ps))"
    using rerenders_current [OF r] h0 by auto
  have fr: "onDropCallback h < nextClosure h"
    using rerenders_fresh [OF r] h0 by simp
  have mt: "mounted fresh p ps = (h, cs0 @ cs)"
    using m r by (simp add: mounted_def)
  have a: "standing [] (cs0 @ cs) = [(dropZoneID (last (p # ps)), onDropCallback h)]"
    using st h0 cur by simp
  have b: "standing [] ((cs0 @ cs) @ unmount h) = []"
    using a cur by (simp only: standing_append) (simp add: unmount_def)
  have c: "\<forall>p'. dropZoneID p' = dropZoneID (last (p # ps)) \<longrightarrow> snd (rerender p' h) = []"
    using cur by (simp add: rerender_def Let_def)
  have d: "\<forall>p'. dropZoneID p' \<noteq> dropZoneID (last (p # ps)) \<longrightarrow>
        snd (rerender p' h)
          = [DeregisterOnDropCallback (dropZoneID (last (p # ps))) (onDropCallback h),
             RegisterOnDropCallback (dropZoneID p') (nextClosure h)] \<and>
        nextClosure h \<noteq> onDropCallback h"
    using cur fr by (simp add: rerender_def Let_def)
  have e: "invokeOnDropCallback h = (case onDrop (last (p # ps)) of None \<Rightarrow> [] | Some f \<Rightarrow> [f])"
    using cur by (simp add: invokeOnDropCallback_def)
  show ?thesis
    unfolding mt using m h0 a b c d e by simp
qed

theorem consumer_registration_balanced_witness:
  "mounted 0 \<lparr>children = (), dropZoneID = ''a'', dropZoneHostName = ''host'', onDrop = Some (1::nat)\<rparr>
     [\<lparr>children = (), dropZoneID = ''a'', dropZoneHostName = ''host'', onDrop = Some 2\<rparr>,
      \<lparr>children = (), dropZoneID = ''b'', dropZoneHostName = ''host'', onDrop = Some 3\<rparr>,
      \<lparr>children = (), dropZoneID = ''b'', dropZoneHostName = ''host'', onDrop = None\<rparr>]
     = (\<lparr>onDropRef = None, effectDeps = ''b'', onDropCallback = 1, nextClosure = 2\<rparr>,
        [RegisterOnDropCallback ''a'' 0, DeregisterOnDropCallback ''a'' 0,
         RegisterOnDropCallback ''b'' 1]) \<and>
   standing [] [RegisterOnDropCallback ''a'' 0, DeregisterOnDropCallback ''a'' 0,
                RegisterOnDropCallback ''b'' 1] = [(''b'', 1)] \<and>
   standing [] ([RegisterOnDropCallback ''a'' 0, DeregisterOnDropCallback ''a'' 0,
                 RegisterOnDropCallback ''b'' 1]
                @ unmount \<lparr>onDropRef = (None :: nat option), effectDeps = ''b'',
                            onDropCallback = 1, nextClosure = 2\<rparr>) = [] \<and>
   invokeOnDropCallback \<lparr>onDropRef = (None :: nat option), effectDeps = ''b'',
                         onDropCallback = 1, nextClosure = 2\<rparr> = []"
  using consumer_registration_balanced
          [of 0 "\<lparr>children = (), dropZoneID = ''a'', dropZoneHostName = ''host'', onDrop = Some (1::nat)\<rparr>"
              "[\<lparr>children = (), dropZoneID = ''a'', dropZoneHostName = ''host'', onDrop = Some 2\<rparr>,
                \<lparr>children = (), dropZoneID = ''b'', dropZoneHostName = ''host'', onDrop = Some 3\<rparr>,
                \<lparr>children = (), dropZoneID = ''b'', dropZoneHostName = ''host'', onDrop = None\<rparr>]"]
  by (simp add: mounted_def mount_def rerender_def unmount_def invokeOnDropCallback_def Let_def)

subsection \<open>QuickBooks Online: the export menu\<close>

text \<open>
  C7. The page has six rows. Each of the first five shows the error indicator
  exactly when its field of the \<open>errors\<close> object of the connection's config
  (\<open>exporter\<close>, \<open>exportDate\<close>, \<open>exportExpenses\<close>, \<open>exportInvoice\<close>,
  \<open>exportCompanyCard\<close>) is set, that is, holds a non-empty message, and no
  indicator otherwise. The title of the preferred-exporter row is the configured
  exporter, or the owner of the policy when none is configured; the export-date
  and the export-expenses rows have no title when their config value
  (\<open>exportDate\<close>, \<open>exportEntity\<close>) is unset.
\<close>

theorem quickbooks_menuItems_indicators_and_titles:
  "length (menuItems translate p) = 6 \<and>
   brickRoadIndicator (menuItems translate p ! 0)
     = (if truthy_opt (errorField p ''exporter'') then Some ERROR else None) \<and>
   brickRoadIndicator (menuItems translate p ! 1)
     = (if truthy_opt (errorField p ''exportDate'') then Some ERROR else None) \<and>
   brickRoadIndicator (menuItems translate p ! 2)
     = (if truthy_opt (errorField p ''exportExpenses'') then Some ERROR else None) \<and>
   brickRoadIndicator (menuItems translate p ! 3)
     = (if truthy_opt (errorField p ''exportInvoice'') then Some ERROR else None) \<and>
   brickRoadIndicator (menuItems translate p ! 4)
     = (if truthy_opt (errorField p ''exportCompanyCard'') then Some ERROR else None) \<and>
   title (menuItems translate p ! 0)
     = Some (case Option.bind (qboConfigOf p) exporter of
               Some e \<Rightarrow> e
             | None \<Rightarrow> (case p of Some pol \<Rightarrow> owner pol | None \<Rightarrow> [])) \<and>
   (Option.bind (qboConfigOf p) exportDate = None \<longrightarrow> title (menuItems translate p ! 1) = None) \<and>
   (Option.bind (qboConfigOf p) exportEntity = None \<longrightarrow> title (menuItems translate p ! 2) = None)"
  by (simp add: menuItems_def Let_def errorIndicator_def nullish_def split: option.splits)

theorem quickbooks_menuItems_indicators_and_titles_witness:
  "map brickRoadIndicator
     (menuItems translateKey (Some (policyWithQbo
        \<lparr>exporter = None, exportDate = None, exportEntity = Some ''bill'',
         exportInvoice = None, exportCompanyCard = None,
         errors = Some [''exporter'' \<mapsto> ''No exporter'', ''exportInvoice'' \<mapsto> ''No account'']\<rparr>)))
     = [Some ERROR, None, None, Some ERROR, None, None] \<and>
   map title
     (menuItems translateKey (Some (policyWithQbo
        \<lparr>exporter = None, exportDate = None, exportEntity = Some ''bill'',
         exportInvoice = None, exportCompanyCard = None,
         errors = Some [''exporter'' \<mapsto> ''No exporter'', ''exportInvoice'' \<mapsto> ''No account'']\<rparr>)))
     = [Some ''owner@example.com'', None, Some ''workspace.qbo.bill'', None, None,
        Some ''workspace.qbo.creditCard'']"
  using quickbooks_menuItems_indicators_and_titles
          [of translateKey "Some (policyWithQbo
              \<lparr>exporter = None, exportDate = None, exportEntity = Some ''bill'',
               exportInvoice = None, exportCompanyCard = None,
               errors = Some [''exporter'' \<mapsto> ''No exporter'', ''exportInvoice'' \<mapsto> ''No account'']\<rparr>)"]
  by (simp add: menuItems_def Let_def errorIndicator_def errorField_def qboConfigOf_def
        policyWithQbo_def nullish_def truthy_opt_def truthy_def translateKey_def)

subsection \<open>AttachmentModal: displaying a file\<close>

text \<open>
  C10. For every input of \<open>displayFileInModal\<close>. A directory sets the
  invalid-attachment state with the folder-not-allowed reason and changes
  nothing else, so the modal is not opened. For a file (given as such, or by an
  item of a drag and drop): a size above the maximum sets the state with the
  too-large reason, a size below the minimum (and not above the maximum) with
  the too-small reason, again changing nothing else; a size from the minimum to
  the maximum, both bounds included, opens the modal on the file under its clean
  name, which is the file itself when its name is clean already and otherwise a
  copy with the same size and type.
\<close>

theorem validateAndDisplayFileToUpload_checks:
  "(isDirectoryData d \<longrightarrow>
      validateAndDisplayFileToUpload c isPDF translate cleanFileName createObjectURL now d s
        = s\<lparr>isAttachmentInvalid := True,
             attachmentInvalidReasonTitle := ''attachmentPicker.attachmentError'',
             attachmentInvalidReason := Some ''attachmentPicker.folderNotAllowedMessage''\<rparr>) \<and>
   (\<forall>f. \<not> isDirectoryData d \<and> fileObjectOf d = Some (FileData f) \<longrightarrow>
      (MAX_SIZE c < fileSize f \<longrightarrow>
         validateAndDisplayFileToUpload c isPDF translate cleanFileName createObjectURL now d s
           = s\<lparr>isAttachmentInvalid := True,
                attachmentInvalidReasonTitle := ''attachmentPicker.attachmentTooLarge'',
                attachmentInvalidReason := Some ''attachmentPicker.sizeExceeded''\<rparr>) \<and>
      (fileSize f \<le> MAX_SIZE c \<and> fileSize f < MIN_SIZE c \<longrightarrow>
         validateAndDisplayFileToUpload c isPDF translate cleanFileName createObjectURL now d s
           = s\<lparr>isAttachmentInvalid := True,
                attachmentInvalidReasonTitle := ''attachmentPicker.attachmentTooSmall'',
                attachmentInvalidReason := Some ''attachmentPicker.sizeNotMet''\<rparr>) \<and>
      (MIN_SIZE c \<le> fileSize f \<and> fileSize f \<le> MAX_SIZE c \<longrightarrow>
         validateAndDisplayFileToUpload c isPDF translate cleanFileName createObjectURL now d s
           = s\<lparr>isModalOpen := True,
                sourceState := createObjectURL (withCleanName cleanFileName now f),
                fileValue := Some (ofFile (withCleanName cleanFileName now f)),
                modalType := getModalType isPDF translate
                               (createObjectURL (withCleanName cleanFileName now f))
                               (Some (withCleanName cleanFileName now f))\<rparr> \<and>
         name (withCleanName cleanFileName now f) = cleanFileName (name f) \<and>
         fileSize (withCleanName cleanFileName now f) = fileSize f \<and>
         fileType (withCleanName cleanFileName now f) = fileType f \<and>
         (name f = cleanFileName (name f) \<longrightarrow> withCleanName cleanFileName now f = f)))"
  by (auto simp: validateAndDisplayFileToUpload_def isDirectoryCheck_def isValidFile_def
        withCleanName_def Let_def)

theorem validateAndDisplayFileToUpload_checks_witness:
  "isModalOpen (upload (FileData (receiptFile 240)) (closeModal (initialState receiptProps))) \<and>
   isModalOpen (upload (FileData (receiptFile 25165824)) (closeModal (initialState receiptProps))) \<and>
   fileValue (upload (FileData (receiptFile 240)) (closeModal (initialState receiptProps)))
     = Some (ofFile \<lparr>name = ''my_receipt.pdf'', fileSize = 240,
                     fileType = ''application/pdf'', lastModified = 1000\<rparr>) \<and>
   upload (FileData (receiptFile 25165825)) (closeModal (initialState receiptProps))
     = (closeModal (initialState receiptProps))
         \<lparr>isAttachmentInvalid := True,
          attachmentInvalidReasonTitle := ''attachmentPicker.attachmentTooLarge'',
          attachmentInvalidReason := Some ''attachmentPicker.sizeExceeded''\<rparr> \<and>
   upload (FileData (receiptFile 239)) (closeModal (initialState receiptProps))
     = (closeModal (initialState receiptProps))
         \<lparr>isAttachmentInvalid := True,
          attachmentInvalidReasonTitle := ''attachmentPicker.attachmentTooSmall'',
          attachmentInvalidReason := Some ''attachmentPicker.sizeNotMet''\<rparr> \<and>
   upload folderItem (closeModal (initialState receiptProps))
     = (closeModal (initialState receiptProps))
         \<lparr>isAttachmentInvalid := True,
          attachmentInvalidReasonTitle := ''attachmentPicker.attachmentError'',
          attachmentInvalidReason := Some ''attachmentPicker.folderNotAllowedMessage''\<rparr>"
  using validateAndDisplayFileToUpload_checks
          [of "FileData (receiptFile 240)" attachmentBounds endsWithPdf translateKey
              underscoreSpaces blobURL 1000 "closeModal (initialState receiptProps)"]
        validateAndDisplayFileToUpload_checks
          [of "FileData (receiptFile 25165824)" attachmentBounds endsWithPdf translateKey
              underscoreSpaces blobURL 1000 "closeModal (initialState receiptProps)"]
        validateAndDisplayFileToUpload_checks
          [of "FileData (receiptFile 25165825)" attachmentBounds endsWithPdf translateKey
              underscoreSpaces blobURL 1000 "closeModal (initialState receiptProps)"]
        validateAndDisplayFileToUpload_checks
          [of "FileData (receiptFile 239)" attachmentBounds endsWithPdf translateKey
              underscoreSpaces blobURL 1000 "closeModal (initialState receiptProps)"]
        validateAndDisplayFileToUpload_checks
          [of folderItem attachmentBounds endsWithPdf translateKey
              underscoreSpaces blobURL 1000 "closeModal (initialState receiptProps)"]
  by (simp add: upload_def isDirectoryData_def fileObjectOf_def folderItem_def receiptFile_def
        attachmentBounds_def withCleanName_def underscoreSpaces_def Let_def)

subsection \<open>NetSuite: the transaction field ID\<close>

lemma validate_flags_when_lowerings_agree:
  assumes "toLocaleLowerCase (values TRANSACTION_FIELD_ID) = toLowerCase (values TRANSACTION_FIELD_ID)"
  shows "validate isRequiredFulfilled toLowerCase toLocaleLowerCase translate fieldLabel p values =
     (if \<not> isRequiredFulfilled (values TRANSACTION_FIELD_ID) then
        [TRANSACTION_FIELD_ID \<mapsto>
          translate ''workspace.netsuite.import.importCustomFields.requiredFieldError'' [fieldLabel]]
      else if \<exists>ls. customListsOf p = Some ls \<and>
                (\<exists>customList \<in> set ls.
                   equalIgnoringCase toLowerCase (transactionFieldID customList)
                     (values TRANSACTION_FIELD_ID)) then
        [TRANSACTION_FIELD_ID \<mapsto>
          translate ''workspace.netsuite.import.importCustomFields.uniqueTransactionFieldIdError'' []]
      else Map.empty)"
  using assms by (simp add: validate_cases equalIgnoringCase_def)

text \<open>
  C1. The validator reports a missing value first and a duplicate ID second,
  and nothing otherwise (\<open>validate_cases\<close>). The duplicate test lowers the stored
  ID with \<open>toLowerCase\<close> and the entered one with \<open>toLocaleLowerCase\<close>. Where the
  two agree on the entered value this is equality up to case
  (\<open>validate_flags_when_lowerings_agree\<close>). On a host with a Turkish locale they
  differ on the capital I: with the stored ID \<^verbatim>\<open>ID\<close>, entering \<^verbatim>\<open>ID\<close>, the very
  same text, gives no error, while lowering both sides alike reports the
  duplicate.
\<close>

theorem validate_misses_duplicate_in_turkish_locale:
  "equalIgnoringCase toLowerCase_ascii ''ID'' ''ID'' \<and>
   validate truthy toLowerCase_ascii toLocaleLowerCase_tr translateKey ''Transaction field ID''
     (Some (policyWithCustomLists [\<lparr>transactionFieldID = ''ID''\<rparr>]))
     (\<lambda>i. ''ID'') = Map.empty \<and>
   validate truthy toLowerCase_ascii toLowerCase_ascii translateKey ''Transaction field ID''
     (Some (policyWithCustomLists [\<lparr>transactionFieldID = ''ID''\<rparr>]))
     (\<lambda>i. ''ID'')
     = [TRANSACTION_FIELD_ID \<mapsto>
          ''workspace.netsuite.import.importCustomFields.uniqueTransactionFieldIdError'']"
  by (simp add: validate_cases equalIgnoringCase_def customListsOf_def policyWithCustomLists_def
        truthy_def toLowerCase_ascii_def toLocaleLowerCase_tr_def lower_char_def translateKey_def)

end
